theory Spec2Isabelle
  imports Complex_Main "HOL-Library.Sublist"
begin

section \<open>The stalled-download watchdog (src/main.py)\<close>

text \<open>
  A shallow embedding of \<^verbatim>\<open>src/main.py\<close>. Python strings are lists of 8-bit
  characters (Latin-1 code points), Python integers are \<open>int\<close>, exceptions are values,
  and everything the script does to the outside (the SQLite table, the HTTP calls, reading
  the clock) is explicit in a state that the functions pass along. Logging is not modelled:
  no control flow depends on it.
\<close>

subsection \<open>Python values\<close>

text \<open>
  The JSON values a queue record carries: null, booleans, integers, strings and lists of
  integers (\<^verbatim>\<open>episodeIds\<close>). Python's \<^verbatim>\<open>None\<close> is \<open>JNull\<close>.
\<close>

datatype json = JNull | JBool bool | JInt int | JStr string | JInts "int list"

text \<open>A queue record is a dict; a missing key is \<open>None\<close> of the map.\<close>

type_synonym item = "string \<rightharpoonup> json"

datatype exn =
    OperationalError
  | KeyError string
  | AttributeError
  | TypeError
  | IndexError

text \<open>Python truthiness (\<^verbatim>\<open>if v:\<close>).\<close>

fun truthy :: "json \<Rightarrow> bool" where
  "truthy JNull = False"
| "truthy (JBool b) = b"
| "truthy (JInt n) = (n \<noteq> 0)"
| "truthy (JStr s) = (s \<noteq> [])"
| "truthy (JInts xs) = (xs \<noteq> [])"

text \<open>\<^verbatim>\<open>d.get(k)\<close>: the value, or \<^verbatim>\<open>None\<close> when the key is missing.\<close>

definition dict_get :: "item \<Rightarrow> string \<Rightarrow> json" where
  "dict_get d k = (case d k of None \<Rightarrow> JNull | Some v \<Rightarrow> v)"

text \<open>\<^verbatim>\<open>str(n)\<close> for integers: decimal digits, a minus sign when negative.\<close>

definition digit :: "nat \<Rightarrow> char" where
  "digit n = ''0123456789'' ! n"

function str_nat :: "nat \<Rightarrow> string" where
  "str_nat n = (if n < 10 then [digit n] else str_nat (n div 10) @ [digit (n mod 10)])"
  by pat_completeness auto
termination
  by (relation "measure (\<lambda>n. n)") auto

declare str_nat.simps [simp del]

definition str_int :: "int \<Rightarrow> string" where
  "str_int i = (if i < 0 then CHR ''-'' # str_nat (nat (- i)) else str_nat (nat i))"

text \<open>\<^verbatim>\<open>", ".join(...)\<close>.\<close>

fun join_comma :: "string list \<Rightarrow> string" where
  "join_comma [] = []"
| "join_comma [x] = x"
| "join_comma (x # y # ys) = x @ '', '' @ join_comma (y # ys)"

text \<open>\<^verbatim>\<open>str(v)\<close> on the values above.\<close>

fun py_str :: "json \<Rightarrow> string" where
  "py_str JNull = ''None''"
| "py_str (JBool b) = (if b then ''True'' else ''False'')"
| "py_str (JInt n) = str_int n"
| "py_str (JStr s) = s"
| "py_str (JInts xs) = ''['' @ join_comma (map str_int xs) @ '']''"

text \<open>
  \<^verbatim>\<open>str.lower()\<close> on Latin-1 code points: \<open>A\<close>--\<open>Z\<close> and the accented capitals
  \<open>0xC0\<close>--\<open>0xDE\<close> (except the multiplication sign \<open>0xD7\<close>) move up by 32.
\<close>

definition lower_char :: "char \<Rightarrow> char" where
  "lower_char c =
     (let n = (of_char c :: nat)
      in if (65 \<le> n \<and> n \<le> 90) \<or> (192 \<le> n \<and> n \<le> 222 \<and> n \<noteq> 215)
         then char_of (n + 32) else c)"

definition lower :: "string \<Rightarrow> string" where
  "lower s = map lower_char s"

text \<open>
  \<^verbatim>\<open>sub in s\<close> is \<^const>\<open>sublist\<close> (a contiguous run) and
  \<^verbatim>\<open>s.startswith(p)\<close> is \<^const>\<open>prefix\<close>, both of \<open>HOL-Library.Sublist\<close>.
\<close>

text \<open>
  A dict with insertion order, as Python keeps it (request parameters):
  \<^verbatim>\<open>d[k] = v\<close> replaces the value of an existing key in place and appends a new key.
\<close>

fun dict_set :: "(string \<times> 'v) list \<Rightarrow> string \<Rightarrow> 'v \<Rightarrow> (string \<times> 'v) list" where
  "dict_set [] k v = [(k, v)]"
| "dict_set ((k', v') # r) k v = (if k' = k then (k, v) # r else (k', v') # dict_set r k v)"

subsection \<open>Configuration\<close>

text \<open>The module-level settings read from the environment (lines 13--28).\<close>

record config =
  RADARR_URL :: "string list option"
  RADARR_API_KEY :: "string list option"
  SONARR_URL :: "string list option"
  SONARR_API_KEY :: "string list option"
  STALLED_TIMEOUT :: int
  STALLED_ACTION :: string
  COUNT_DOWNLOADING_METADATA_AS_STALLED :: bool

subsection \<open>The tracking table\<close>

text \<open>
  A row of \<^verbatim>\<open>stalled_downloads\<close> is \<open>(download_id, first_detected, arr_service)\<close>.
  Timestamps are UTC instants in microseconds (the resolution of \<^verbatim>\<open>datetime\<close>);
  \<^verbatim>\<open>isoformat\<close> followed by \<^verbatim>\<open>fromisoformat\<close> gives the instant back, so the
  row holds the instant itself. The database is \<open>None\<close> while the table does not exist
  (every statement on it then raises \<^verbatim>\<open>sqlite3.OperationalError\<close>), and the list
  of its rows otherwise. The primary key is not built into the type: it is what
  \<^verbatim>\<open>INSERT OR IGNORE\<close> checks.
\<close>

type_synonym row = "string \<times> int \<times> string"

type_synonym database = "row list option"

definition row_key :: "row \<Rightarrow> string \<times> string" where
  "row_key r = (case r of (download_id, first_detected, arr_service) \<Rightarrow> (download_id, arr_service))"

definition unique_keys :: "row list \<Rightarrow> bool" where
  "unique_keys t = distinct (map row_key t)"

definition initialize_database :: "config \<Rightarrow> database \<Rightarrow> database" where
  "initialize_database cfg d =
     (if STALLED_TIMEOUT cfg = 0 then d
      else (case d of None \<Rightarrow> Some [] | Some t \<Rightarrow> Some t))"

text \<open>
  The dict comprehension of line 60 keeps the last row of a repeated key, hence the
  \<^const>\<open>rev\<close> (\<^const>\<open>map_of\<close> keeps the first).
\<close>

definition get_stalled_downloads_from_db :: "string \<Rightarrow> database \<Rightarrow> exn + (string \<rightharpoonup> int)" where
  "get_stalled_downloads_from_db arr_service d =
     (case d of
        None \<Rightarrow> Inl OperationalError
      | Some t \<Rightarrow>
          Inr (map_of (rev (map (\<lambda>(download_id, first_detected, a). (download_id, first_detected))
                 (filter (\<lambda>(download_id, first_detected, a). a = arr_service) t)))))"

definition add_stalled_download_to_db ::
  "string \<Rightarrow> int \<Rightarrow> string \<Rightarrow> database \<Rightarrow> exn + (bool \<times> database)" where
  "add_stalled_download_to_db download_id first_detected arr_service d =
     (case d of
        None \<Rightarrow> Inl OperationalError
      | Some t \<Rightarrow>
          if (download_id, arr_service) \<in> set (map row_key t)
          then Inr (False, Some t)
          else Inr (True, Some (t @ [(download_id, first_detected, arr_service)])))"

definition remove_stalled_download_from_db :: "string \<Rightarrow> string \<Rightarrow> database \<Rightarrow> exn + database" where
  "remove_stalled_download_from_db download_id arr_service d =
     (case d of
        None \<Rightarrow> Inl OperationalError
      | Some t \<Rightarrow> Inr (Some (filter (\<lambda>r. row_key r \<noteq> (download_id, arr_service)) t)))"

subsection \<open>The outside world: HTTP and the clock\<close>

text \<open>
  A request is what \<^verbatim>\<open>requests.get\<close>, \<^verbatim>\<open>requests.delete\<close> and
  \<^verbatim>\<open>requests.post\<close> send: the URL, the headers, and the query parameters or the JSON
  body. \<open>episodeIds\<close> of an \<^verbatim>\<open>EpisodeSearch\<close> is either the one-element list
  \<^verbatim>\<open>[item["episodeId"]]\<close> or the value of \<^verbatim>\<open>item["episodeIds"]\<close> as it came.
\<close>

datatype episode_ids = Wrapped json | Provided json

datatype command =
    EpisodeSearch episode_ids
  | SeriesSearch json
  | MoviesSearch "json list"

type_synonym headers = "(string \<times> string) list"

type_synonym params = "(string \<times> json) list"

datatype request =
    GET string headers params
  | DELETE string headers params
  | POST string headers command

text \<open>
  What comes back. \<open>NoResponse\<close> is a \<^verbatim>\<open>requests.RequestException\<close> raised by the
  call itself (connection refused, timeout). Otherwise there is a status code and a decoded
  JSON body, which for the queue endpoint is either a page (an object with a
  \<^verbatim>\<open>records\<close> list of objects, and \<^verbatim>\<open>totalRecords\<close> missing, null or an
  integer) or anything else (\<open>NotPage\<close>: falsy, not an object, or without
  \<^verbatim>\<open>records\<close>).
\<close>

datatype total_field = TotAbsent | TotNull | TotNum int

datatype doc = Page "item list" total_field | NotPage

datatype response = NoResponse | Http nat doc

text \<open>
  The backends are any deterministic environment: the answer to a request may depend on
  every request sent before it. \<open>now_at w n\<close> is what the \<open>n\<close>-th call of
  \<^verbatim>\<open>datetime.now(timezone.utc)\<close> returns.
\<close>

record world =
  respond :: "request list \<Rightarrow> request \<Rightarrow> response"
  now_at :: "nat \<Rightarrow> int"

text \<open>
  The state the script changes: the table, the requests sent so far (oldest first), and
  the number of clock readings taken.
\<close>

record state =
  db :: database
  sent :: "request list"
  ticks :: nat

definition send :: "world \<Rightarrow> request \<Rightarrow> state \<Rightarrow> response \<times> state" where
  "send w req s = (respond w (sent s) req, s\<lparr>sent := sent s @ [req]\<rparr>)"

text \<open>\<^verbatim>\<open>response.raise_for_status()\<close> raises on 4xx and 5xx.\<close>

definition raises_for_status :: "nat \<Rightarrow> bool" where
  "raises_for_status st = (400 \<le> st \<and> st < 600)"

text \<open>\<open>None\<close> is the \<^verbatim>\<open>None\<close> returned from the \<^verbatim>\<open>except\<close> branch.\<close>

definition query_api :: "world \<Rightarrow> string \<Rightarrow> headers \<Rightarrow> params \<Rightarrow> state \<Rightarrow> doc option \<times> state" where
  "query_api w url hs ps s =
     (case send w (GET url hs ps) s of
        (NoResponse, s') \<Rightarrow> (None, s')
      | (Http st d, s') \<Rightarrow> if raises_for_status st then (None, s') else (Some d, s'))"

definition post_api :: "world \<Rightarrow> string \<Rightarrow> headers \<Rightarrow> command \<Rightarrow> state \<Rightarrow> state" where
  "post_api w url hs data s = snd (send w (POST url hs data) s)"

definition delete_api :: "world \<Rightarrow> string \<Rightarrow> headers \<Rightarrow> params \<Rightarrow> state \<Rightarrow> bool \<times> state" where
  "delete_api w url hs ps s =
     (case send w (DELETE url hs ps) s of
        (NoResponse, s') \<Rightarrow> (False, s')
      | (Http st d, s') \<Rightarrow>
          if st = 404 then (False, s')
          else if raises_for_status st then (False, s')
          else (True, s'))"

subsection \<open>The queue fetcher\<close>

text \<open>
  The \<^verbatim>\<open>while True\<close> loop of \<^verbatim>\<open>query_api_paginated\<close> need not end (a backend
  may return non-empty pages forever), so the loop takes fuel, one unit per round, and
  \<open>None\<close> means the fuel ran out. The loop variables are the arguments \<open>page\<close>,
  \<open>total_records\<close> and \<open>all_records\<close>.
\<close>

fun query_api_paginated_loop ::
  "nat \<Rightarrow> world \<Rightarrow> string \<Rightarrow> headers \<Rightarrow> params \<Rightarrow> int \<Rightarrow> int \<Rightarrow> int option \<Rightarrow> item list \<Rightarrow> state
     \<Rightarrow> (item list \<times> state) option" where
  "query_api_paginated_loop 0 w base_url hs ps page_size page total_records all_records s = None"
| "query_api_paginated_loop (Suc fuel) w base_url hs ps page_size page total_records all_records s =
     (let paginated_params = dict_set (dict_set ps ''page'' (JInt page)) ''pageSize'' (JInt page_size)
      in case query_api w base_url hs paginated_params s of
           (None, s') \<Rightarrow> Some (all_records, s')
         | (Some NotPage, s') \<Rightarrow> Some (all_records, s')
         | (Some (Page records tf), s') \<Rightarrow>
             (let total_records' =
                    (case tf of TotAbsent \<Rightarrow> total_records | TotNull \<Rightarrow> None | TotNum t \<Rightarrow> Some t)
              in case records of
                   [] \<Rightarrow> Some (all_records, s')
                 | _ # _ \<Rightarrow>
                     (let all_records' = all_records @ records
                      in if (case total_records' of
                               None \<Rightarrow> False
                             | Some t \<Rightarrow> t \<noteq> 0 \<and> int (length all_records') \<ge> t)
                         then Some (all_records', s')
                         else query_api_paginated_loop fuel w base_url hs ps page_size (page + 1)
                                total_records' all_records' s')))"

definition query_api_paginated ::
  "nat \<Rightarrow> world \<Rightarrow> string \<Rightarrow> headers \<Rightarrow> params \<Rightarrow> int \<Rightarrow> state \<Rightarrow> (item list \<times> state) option" where
  "query_api_paginated fuel w base_url hs ps page_size s =
     query_api_paginated_loop fuel w base_url hs ps page_size 1 None [] s"







subsection \<open>The remediation\<close>

text \<open>\<^verbatim>\<open>if episode_ids:\<close> on \<^verbatim>\<open>None\<close>, a one-element list, or the provided value.\<close>

fun truthy_ids :: "episode_ids option \<Rightarrow> bool" where
  "truthy_ids None = False"
| "truthy_ids (Some (Wrapped v)) = True"
| "truthy_ids (Some (Provided v)) = truthy v"

text \<open>The local variables \<^verbatim>\<open>action_url\<close>, \<^verbatim>\<open>params\<close> and \<^verbatim>\<open>command_url\<close>.\<close>

definition action_url :: "string \<Rightarrow> string \<Rightarrow> string \<Rightarrow> string" where
  "action_url base_url api_version download_id = base_url @ ''/api/'' @ api_version @ ''/queue/'' @ download_id"

definition blocklist_params :: params where
  "blocklist_params = [(''blocklist'', JStr ''true''), (''skipRedownload'', JStr ''false'')]"

definition command_url :: "string \<Rightarrow> string \<Rightarrow> string" where
  "command_url base_url api_version = base_url @ ''/api/'' @ api_version @ ''/command''"

definition perform_action ::
  "config \<Rightarrow> world \<Rightarrow> string \<Rightarrow> headers \<Rightarrow> string \<Rightarrow> json \<Rightarrow> string \<Rightarrow> string
     \<Rightarrow> episode_ids option \<Rightarrow> json \<Rightarrow> state \<Rightarrow> state" where
  "perform_action cfg w base_url hs download_id movie_id service_name api_version episode_ids series_id s =
     (case delete_api w (action_url base_url api_version download_id) hs blocklist_params s of
        (success, s1) \<Rightarrow>
          if \<not> success \<and> STALLED_ACTION cfg \<noteq> ''REMOVE'' then s1
          else if STALLED_ACTION cfg = ''BLOCKLIST_AND_SEARCH'' then
            (if prefix ''Sonarr'' service_name then
               (case episode_ids of
                  Some ids \<Rightarrow>
                    if truthy_ids (Some ids) then
                      post_api w (command_url base_url api_version) hs (EpisodeSearch ids) s1
                    else if truthy series_id then
                      post_api w (command_url base_url api_version) hs (SeriesSearch series_id) s1
                    else s1
                | None \<Rightarrow>
                    if truthy series_id then
                      post_api w (command_url base_url api_version) hs (SeriesSearch series_id) s1
                    else s1)
             else if prefix ''Radarr'' service_name \<and> truthy movie_id then
               post_api w (command_url base_url api_version) hs (MoviesSearch [movie_id]) s1
             else s1)
          else s1)"

subsection \<open>One cycle\<close>

text \<open>Lines 201--211: the lower-cased message, and the test for the mode.\<close>

definition error_msg_of :: "item \<Rightarrow> exn + string" where
  "error_msg_of item =
     (case item ''errorMessage'' of
        None \<Rightarrow> Inr (lower [])
      | Some (JStr m) \<Rightarrow> Inr (lower m)
      | Some _ \<Rightarrow> Inl AttributeError)"

definition is_target :: "bool \<Rightarrow> string \<Rightarrow> item \<Rightarrow> bool" where
  "is_target metadata_check error_msg item =
     (if metadata_check then sublist ''downloading metadata'' error_msg
      else (sublist ''stalled'' error_msg \<or> sublist ''connection'' error_msg
            \<or> dict_get item ''status'' = JStr ''warning''))"

text \<open>Lines 221--226: the episode identifiers handed to the remediation.\<close>

definition extract_episode_ids :: "item \<Rightarrow> episode_ids option" where
  "extract_episode_ids item =
     (case item ''episodeId'' of
        Some v \<Rightarrow>
          if truthy v then Some (Wrapped v)
          else (case item ''episodeIds'' of
                  Some u \<Rightarrow> if truthy u then Some (Provided u) else None
                | None \<Rightarrow> None)
      | None \<Rightarrow>
          (case item ''episodeIds'' of
             Some u \<Rightarrow> if truthy u then Some (Provided u) else None
           | None \<Rightarrow> None))"

text \<open>
  \<^verbatim>\<open>timedelta.total_seconds()\<close> of a difference of two instants, as the exact
  quotient of the microseconds by \<open>10\<^sup>6\<close>. Python returns the nearest float, which
  compares with an integer timeout as the exact quotient does for every span a process
  can meet (up to some \<open>2\<^sup>3\<^sup>3\<close> seconds); rounding beyond that is not modelled.
\<close>

definition total_seconds :: "int \<Rightarrow> rat" where
  "total_seconds d = of_int d / 1000000"

text \<open>
  The body of the \<^verbatim>\<open>for item in records\<close> loop (lines 199--243). The result is the
  exception that left the body, if any, and the state reached.
\<close>

definition check_item ::
  "config \<Rightarrow> world \<Rightarrow> string \<Rightarrow> headers \<Rightarrow> string \<Rightarrow> string \<Rightarrow> bool \<Rightarrow> (string \<rightharpoonup> int) \<Rightarrow> item
     \<Rightarrow> state \<Rightarrow> exn option \<times> state" where
  "check_item cfg w base_url hs service_name api_version metadata_check db_stalled item s =
     (case error_msg_of item of
        Inl e \<Rightarrow> (Some e, s)
      | Inr error_msg \<Rightarrow>
          if \<not> is_target metadata_check error_msg item then (None, s)
          else
            (case item ''id'' of
               None \<Rightarrow> (Some (KeyError ''id''), s)
             | Some v \<Rightarrow>
                 (let download_id = py_str v;
                      movie_id = dict_get item ''movieId'';
                      series_id = dict_get item ''seriesId'';
                      episode_ids = extract_episode_ids item;
                      now = now_at w (ticks s);
                      s1 = s\<lparr>ticks := ticks s + 1\<rparr>
                  in case db_stalled download_id of
                       Some first_detected \<Rightarrow>
                         (let elapsed = total_seconds (now - first_detected)
                          in if elapsed > of_int (STALLED_TIMEOUT cfg) then
                               (let s2 = perform_action cfg w base_url hs download_id movie_id
                                           service_name api_version episode_ids series_id s1
                                in case remove_stalled_download_from_db download_id service_name (db s2) of
                                     Inl e \<Rightarrow> (Some e, s2)
                                   | Inr d \<Rightarrow> (None, s2\<lparr>db := d\<rparr>))
                             else (None, s1))
                     | None \<Rightarrow>
                         (case add_stalled_download_to_db download_id now service_name (db s1) of
                            Inl e \<Rightarrow> (Some e, s1)
                          | Inr (added, d) \<Rightarrow> (None, s1\<lparr>db := d\<rparr>)))))"

text \<open>The \<^verbatim>\<open>for\<close> loop: an exception leaves it, and the rest is not visited.\<close>

fun check_items ::
  "config \<Rightarrow> world \<Rightarrow> string \<Rightarrow> headers \<Rightarrow> string \<Rightarrow> string \<Rightarrow> bool \<Rightarrow> (string \<rightharpoonup> int) \<Rightarrow> item list
     \<Rightarrow> state \<Rightarrow> exn option \<times> state" where
  "check_items cfg w base_url hs service_name api_version metadata_check db_stalled [] s = (None, s)"
| "check_items cfg w base_url hs service_name api_version metadata_check db_stalled (item # rest) s =
     (case check_item cfg w base_url hs service_name api_version metadata_check db_stalled item s of
        (Some e, s') \<Rightarrow> (Some e, s')
      | (None, s') \<Rightarrow>
          check_items cfg w base_url hs service_name api_version metadata_check db_stalled rest s')"

text \<open>Lines 193--243: what \<^verbatim>\<open>check_queue_and_act\<close> does with the fetched records.\<close>

definition check_records ::
  "config \<Rightarrow> world \<Rightarrow> string \<Rightarrow> headers \<Rightarrow> string \<Rightarrow> string \<Rightarrow> bool \<Rightarrow> item list
     \<Rightarrow> state \<Rightarrow> exn option \<times> state" where
  "check_records cfg w base_url hs service_name api_version metadata_check records s =
     (case records of
        [] \<Rightarrow> (None, s)
      | _ # _ \<Rightarrow>
          (case get_stalled_downloads_from_db service_name (db s) of
             Inl e \<Rightarrow> (Some e, s)
           | Inr db_stalled \<Rightarrow>
               check_items cfg w base_url hs service_name api_version metadata_check db_stalled records s))"

definition check_queue_and_act ::
  "nat \<Rightarrow> config \<Rightarrow> world \<Rightarrow> string \<Rightarrow> string \<Rightarrow> string \<Rightarrow> string \<Rightarrow> bool \<Rightarrow> state
     \<Rightarrow> (exn option \<times> state) option" where
  "check_queue_and_act fuel cfg w base_url api_key service_name api_version metadata_check s =
     (let status_filter = (if metadata_check then ''queued'' else ''warning'');
          ps = [(''protocol'', JStr ''torrent''),
                (''status'', JStr status_filter),
                (''includeEpisode'', JStr (if prefix ''Sonarr'' service_name then ''true'' else ''false''))];
          hs = [(''X-Api-Key'', api_key)];
          queue_url = base_url @ ''/api/'' @ api_version @ ''/queue''
      in case query_api_paginated fuel w queue_url hs ps 50 s of
           None \<Rightarrow> None
         | Some (records, s') \<Rightarrow>
             Some (check_records cfg w base_url hs service_name api_version metadata_check records s'))"

subsection \<open>One sweep of the main loop\<close>

text \<open>
  The body of \<^verbatim>\<open>while True\<close> (lines 252--263), before the sleep. The
  \<^verbatim>\<open>try\<close> is around the whole loop, so an exception leaves the sweep and the loop.
  \<open>keys\<close> is the list of API keys, indexed by the position of the URL.
\<close>

definition subscript :: "string list option \<Rightarrow> nat \<Rightarrow> exn + string" where
  "subscript keys i =
     (case keys of
        None \<Rightarrow> Inl TypeError
      | Some ks \<Rightarrow> if i < length ks then Inr (ks ! i) else Inl IndexError)"

fun sweep_service ::
  "nat \<Rightarrow> config \<Rightarrow> world \<Rightarrow> string \<Rightarrow> string list option \<Rightarrow> nat \<Rightarrow> string list \<Rightarrow> state
     \<Rightarrow> (exn option \<times> state) option" where
  "sweep_service fuel cfg w kind keys i [] s = Some (None, s)"
| "sweep_service fuel cfg w kind keys i (url # urls) s =
     (case subscript keys i of
        Inl e \<Rightarrow> Some (Some e, s)
      | Inr key \<Rightarrow>
          (case check_queue_and_act fuel cfg w url key (kind @ str_nat i) ''v3'' False s of
             None \<Rightarrow> None
           | Some (Some e, s1) \<Rightarrow> Some (Some e, s1)
           | Some (None, s1) \<Rightarrow>
               if COUNT_DOWNLOADING_METADATA_AS_STALLED cfg then
                 (case check_queue_and_act fuel cfg w url key (kind @ str_nat i) ''v3'' True s1 of
                    None \<Rightarrow> None
                  | Some (Some e, s2) \<Rightarrow> Some (Some e, s2)
                  | Some (None, s2) \<Rightarrow> sweep_service fuel cfg w kind keys (Suc i) urls s2)
               else sweep_service fuel cfg w kind keys (Suc i) urls s1))"

definition urls_of :: "string list option \<Rightarrow> string list" where
  "urls_of u = (case u of None \<Rightarrow> [] | Some us \<Rightarrow> us)"

definition sweep :: "nat \<Rightarrow> config \<Rightarrow> world \<Rightarrow> state \<Rightarrow> (exn option \<times> state) option" where
  "sweep fuel cfg w s =
     (case sweep_service fuel cfg w ''Radarr'' (RADARR_API_KEY cfg) 0 (urls_of (RADARR_URL cfg)) s of
        None \<Rightarrow> None
      | Some (Some e, s1) \<Rightarrow> Some (Some e, s1)
      | Some (None, s1) \<Rightarrow>
          sweep_service fuel cfg w ''Sonarr'' (SONARR_API_KEY cfg) 0 (urls_of (SONARR_URL cfg)) s1)"

subsection \<open>Words for the properties of a sweep\<close>





subsection \<open>Concrete inputs\<close>

text \<open>
  The settings, queue records and backends at which the properties below are evaluated.
  A \<open>fixed_world\<close> answers by the request alone and shows the same instant at every
  reading of the clock.
\<close>

definition example_config :: config where
  "example_config =
     \<lparr>RADARR_URL = Some [''http://radarr''], RADARR_API_KEY = Some [''k1''],
      SONARR_URL = Some [''http://sonarr''], SONARR_API_KEY = Some [''k2''],
      STALLED_TIMEOUT = 900, STALLED_ACTION = ''BLOCKLIST_AND_SEARCH'',
      COUNT_DOWNLOADING_METADATA_AS_STALLED = False\<rparr>"

definition fixed_world :: "(request \<Rightarrow> response) \<Rightarrow> int \<Rightarrow> world" where
  "fixed_world f t = \<lparr>respond = (\<lambda>h. f), now_at = (\<lambda>n. t)\<rparr>"

definition movie_item :: item where
  "movie_item = [''id'' \<mapsto> JInt 42, ''status'' \<mapsto> JStr ''warning'',
                 ''errorMessage'' \<mapsto> JStr ''The download is Stalled with no connections'',
                 ''movieId'' \<mapsto> JInt 7]"

definition episode_item :: item where
  "episode_item = [''id'' \<mapsto> JInt 43, ''status'' \<mapsto> JStr ''warning'',
                   ''episodeIds'' \<mapsto> JInts [10, 11], ''seriesId'' \<mapsto> JInt 5]"

text \<open>A backend with one stalled movie in its queue, answering every request with \<open>status\<close>.\<close>

fun one_movie :: "nat \<Rightarrow> request \<Rightarrow> response" where
  "one_movie status (GET url hs ps) = Http 200 (Page [movie_item] (TotNum 1))"
| "one_movie status (DELETE url hs ps) = Http status NotPage"
| "one_movie status (POST url hs c) = Http 200 NotPage"

definition radarr_headers :: headers where
  "radarr_headers = [(''X-Api-Key'', ''k1'')]"



definition queue_params :: params where
  "queue_params = [(''protocol'', JStr ''torrent''), (''status'', JStr ''warning''),
                   (''includeEpisode'', JStr ''false'')]"



text \<open>The same download while it is still resolving its metadata.\<close>

definition metadata_item :: item where
  "metadata_item = [''id'' \<mapsto> JInt 42, ''status'' \<mapsto> JStr ''queued'',
                    ''errorMessage'' \<mapsto> JStr ''qBittorrent is downloading metadata'',
                    ''movieId'' \<mapsto> JInt 7]"

text \<open>A world whose clock advances by \<open>step\<close> microseconds from one reading to the next.\<close>

definition ticking_world :: "(request \<Rightarrow> response) \<Rightarrow> int \<Rightarrow> world" where
  "ticking_world f step = \<lparr>respond = (\<lambda>h. f), now_at = (\<lambda>n. int n * step)\<rparr>"

section \<open>Properties\<close>

subsection \<open>The tracking table keeps one row per key\<close>

lemma distinct_ids_of_service:
  "unique_keys t \<Longrightarrow>
   distinct (map fst (map (\<lambda>(download_id, first_detected, a). (download_id, first_detected))
      (filter (\<lambda>(download_id, first_detected, a). a = arr_service) t)))"
proof (induction t)
  case Nil
  then show ?case by simp
next
  case (Cons r t)
  obtain d f a where r: "r = (d, f, a)" by (cases r)
  from Cons.prems have u: "unique_keys t" and fresh: "(d, a) \<notin> set (map row_key t)"
    by (simp_all add: unique_keys_def r row_key_def)
  have "(d, f', arr_service) \<notin> set t" if "a = arr_service" for f'
    using fresh that by (force simp: row_key_def)
  with Cons.IH [OF u] show ?case
    by (auto simp: r)
qed

text \<open>With one row per key, the dict read for a service holds exactly the rows of that service.\<close>

lemma snapshot_lookup:
  assumes "unique_keys t"
  shows "get_stalled_downloads_from_db arr_service (Some t) = Inr m \<Longrightarrow>
         (m download_id = Some first_detected) = ((download_id, first_detected, arr_service) \<in> set t)"
proof -
  assume g: "get_stalled_downloads_from_db arr_service (Some t) = Inr m"
  let ?xs = "map (\<lambda>(download_id, first_detected, a). (download_id, first_detected))
      (filter (\<lambda>(download_id, first_detected, a). a = arr_service) t)"
  have m: "m = map_of (rev ?xs)"
    using g by (simp add: get_stalled_downloads_from_db_def)
  have d: "distinct (map fst (rev ?xs))"
    using distinct_ids_of_service [OF assms, of arr_service] by (simp add: rev_map [symmetric])
  have "(m download_id = Some first_detected) = ((download_id, first_detected) \<in> set (rev ?xs))"
    unfolding m using map_of_eq_Some_iff [OF d] by blast
  also have "\<dots> = ((download_id, first_detected, arr_service) \<in> set t)"
    by force
  finally show ?thesis .
qed

lemma add_existing_key:
  "(download_id, first_detected, arr_service) \<in> set t \<Longrightarrow>
   add_stalled_download_to_db download_id later arr_service (Some t) = Inr (False, Some t)"
  by (force simp: add_stalled_download_to_db_def row_key_def)

lemma add_keeps_unique_keys:
  "unique_keys t \<Longrightarrow> add_stalled_download_to_db d f a (Some t) = Inr (b, d') \<Longrightarrow>
   \<exists>t'. d' = Some t' \<and> unique_keys t'"
  by (auto simp: add_stalled_download_to_db_def unique_keys_def row_key_def split: if_splits)

lemma remove_keeps_unique_keys:
  "unique_keys t \<Longrightarrow> remove_stalled_download_from_db d a (Some t) = Inr d' \<Longrightarrow>
   \<exists>t'. d' = Some t' \<and> unique_keys t'"
  by (auto simp: remove_stalled_download_from_db_def unique_keys_def distinct_map_filter)

lemma one_row_of_key:
  "unique_keys t \<Longrightarrow> r \<in> set t \<Longrightarrow> length (filter (\<lambda>x. row_key x = row_key r) t) = 1"
proof (induction t)
  case Nil
  then show ?case by simp
next
  case (Cons x t)
  then have u: "unique_keys t" and fresh: "row_key x \<notin> row_key ` set t"
    by (simp_all add: unique_keys_def)
  show ?case
  proof (cases "r = x")
    case True
    have "\<forall>y\<in>set t. row_key y \<noteq> row_key x"
      using fresh by (metis imageI)
    then have "filter (\<lambda>y. row_key y = row_key x) t = []"
      by (simp add: filter_empty_conv)
    then show ?thesis using True by simp
  next
    case False
    with Cons.prems have "r \<in> set t" by simp
    moreover from this fresh have "row_key x \<noteq> row_key r" by force
    ultimately show ?thesis using Cons.IH [OF u] by simp
  qed
qed

text \<open>
  Claim C7. In a table with one row per key, inserting a \<open>(download_id, arr_service)\<close>
  that is already there changes nothing: the statement reports that no row was added
  (\<open>False\<close>), the table is the same, the dict read back still gives the original
  \<open>first_detected\<close>, and the key has exactly one row. Whatever is inserted, the table
  keeps one row per key.
\<close>

theorem insert_existing_key_is_noop:
  assumes "unique_keys t" and "(download_id, first_detected, arr_service) \<in> set t"
  shows "add_stalled_download_to_db download_id later arr_service (Some t) = Inr (False, Some t)
       \<and> (\<exists>m. get_stalled_downloads_from_db arr_service (Some t) = Inr m
              \<and> m download_id = Some first_detected)
       \<and> length (filter (\<lambda>r. row_key r = (download_id, arr_service)) t) = 1
       \<and> (\<forall>d f a b d'. add_stalled_download_to_db d f a (Some t) = Inr (b, d')
              \<longrightarrow> (\<exists>t'. d' = Some t' \<and> unique_keys t'))"
proof -
  have "get_stalled_downloads_from_db arr_service (Some t)
          = Inr (map_of (rev (map (\<lambda>(download_id, first_detected, a). (download_id, first_detected))
                 (filter (\<lambda>(download_id, first_detected, a). a = arr_service) t))))"
    by (simp add: get_stalled_downloads_from_db_def)
  then have "\<exists>m. get_stalled_downloads_from_db arr_service (Some t) = Inr m
              \<and> m download_id = Some first_detected"
    using snapshot_lookup [OF assms(1)] assms(2) by blast
  moreover have "length (filter (\<lambda>r. row_key r = (download_id, arr_service)) t) = 1"
    using one_row_of_key [OF assms] by (simp add: row_key_def)
  ultimately show ?thesis
    using add_existing_key [OF assms(2)] add_keeps_unique_keys [OF assms(1)] by blast
qed

theorem insert_existing_key_is_noop_witness:
  "add_stalled_download_to_db ''42'' 905000000 ''Radarr0'' (Some [(''42'', 0, ''Radarr0'')])
     = Inr (False, Some [(''42'', 0, ''Radarr0'')])
   \<and> (\<exists>m. get_stalled_downloads_from_db ''Radarr0'' (Some [(''42'', 0, ''Radarr0'')]) = Inr m
          \<and> m ''42'' = Some 0)"
  using insert_existing_key_is_noop [of "[(''42'', 0, ''Radarr0'')]" "''42''" 0 "''Radarr0''" 905000000]
  by (simp add: unique_keys_def)

subsection \<open>What the HTTP helpers and the remediation send\<close>

lemma delete_api_sent:
  "snd (delete_api w url hs ps s) = s\<lparr>sent := sent s @ [DELETE url hs ps]\<rparr>"
  by (simp add: delete_api_def send_def split: response.splits)

lemma delete_api_404:
  "respond w (sent s) (DELETE url hs ps) = Http 404 d \<Longrightarrow> fst (delete_api w url hs ps s) = False"
  by (simp add: delete_api_def send_def)

lemma delete_api_failed:
  "respond w (sent s) (DELETE url hs ps) = NoResponse
   \<or> (\<exists>st d. respond w (sent s) (DELETE url hs ps) = Http st d \<and> raises_for_status st)
   \<Longrightarrow> fst (delete_api w url hs ps s) = False"
  by (auto simp: delete_api_def send_def split: if_splits)

lemma delete_api_ok:
  "respond w (sent s) (DELETE url hs ps) = Http st d \<Longrightarrow> st \<noteq> 404 \<Longrightarrow> \<not> raises_for_status st
   \<Longrightarrow> fst (delete_api w url hs ps s) = True"
  by (simp add: delete_api_def send_def)

lemma delete_api_pair:
  "delete_api w url hs ps s = (fst (delete_api w url hs ps s), s\<lparr>sent := sent s @ [DELETE url hs ps]\<rparr>)"
  using delete_api_sent [of w url hs ps s] by (metis prod.collapse)

lemma post_api_eq:
  "post_api w url hs c s = s\<lparr>sent := sent s @ [POST url hs c]\<rparr>"
  by (simp add: post_api_def send_def)

lemma perform_action_not_deleted:
  assumes "fst (delete_api w (action_url base_url api_version download_id) hs blocklist_params s) = False"
    and "STALLED_ACTION cfg \<noteq> ''REMOVE''"
  shows "perform_action cfg w base_url hs download_id movie_id service_name api_version episode_ids series_id s
         = s\<lparr>sent := sent s @ [DELETE (action_url base_url api_version download_id) hs blocklist_params]\<rparr>"
  unfolding perform_action_def
  by (subst delete_api_pair) (simp add: assms)

lemma perform_action_deleted:
  assumes "fst (delete_api w (action_url base_url api_version download_id) hs blocklist_params s) = True"
    and "STALLED_ACTION cfg = ''BLOCKLIST_AND_SEARCH''"
  shows "perform_action cfg w base_url hs download_id movie_id service_name api_version episode_ids series_id s
         = s\<lparr>sent := sent s @ DELETE (action_url base_url api_version download_id) hs blocklist_params #
             (if prefix ''Sonarr'' service_name then
                (case episode_ids of
                   Some ids \<Rightarrow>
                     if truthy_ids (Some ids) then [POST (command_url base_url api_version) hs (EpisodeSearch ids)]
                     else if truthy series_id then [POST (command_url base_url api_version) hs (SeriesSearch series_id)]
                     else []
                 | None \<Rightarrow>
                     if truthy series_id then [POST (command_url base_url api_version) hs (SeriesSearch series_id)]
                     else [])
              else if prefix ''Radarr'' service_name \<and> truthy movie_id then
                [POST (command_url base_url api_version) hs (MoviesSearch [movie_id])]
              else [])\<rparr>"
  unfolding perform_action_def
  by (subst delete_api_pair) (simp add: assms post_api_eq split: option.splits)

lemma perform_action_db: "db (perform_action cfg w base_url hs download_id movie_id service_name api_version episode_ids series_id s) = db s"
  unfolding perform_action_def
  by (subst delete_api_pair) (simp add: post_api_eq split: option.splits)

lemma perform_action_ticks: "ticks (perform_action cfg w base_url hs download_id movie_id service_name api_version episode_ids series_id s) = ticks s"
  unfolding perform_action_def
  by (subst delete_api_pair) (simp add: post_api_eq split: option.splits)

lemma perform_action_sent:
  "\<exists>rest. sent (perform_action cfg w base_url hs download_id movie_id service_name api_version episode_ids series_id s)
     = sent s @ DELETE (action_url base_url api_version download_id) hs blocklist_params # rest"
  unfolding perform_action_def
  by (subst delete_api_pair) (simp add: post_api_eq split: option.splits)

subsection \<open>A delete answered with 404\<close>

text \<open>
  Claim C2, as amended. \<^verbatim>\<open>delete_api\<close> returns \<^verbatim>\<open>False\<close> on a 404, as it
  does on a failure, so under \<^verbatim>\<open>BLOCKLIST_AND_SEARCH\<close> the remediation stops after
  the delete request: no search command is sent after a 404.
\<close>

theorem not_found_suppresses_search:
  assumes "STALLED_ACTION cfg = ''BLOCKLIST_AND_SEARCH''"
    and "respond w (sent s) (DELETE (action_url base_url api_version download_id) hs blocklist_params) = Http 404 d"
  shows "delete_api w (action_url base_url api_version download_id) hs blocklist_params s
           = (False, s\<lparr>sent := sent s @ [DELETE (action_url base_url api_version download_id) hs blocklist_params]\<rparr>)
       \<and> perform_action cfg w base_url hs download_id movie_id service_name api_version episode_ids series_id s
           = s\<lparr>sent := sent s @ [DELETE (action_url base_url api_version download_id) hs blocklist_params]\<rparr>"
proof -
  have f: "fst (delete_api w (action_url base_url api_version download_id) hs blocklist_params s) = False"
    using assms(2) by (rule delete_api_404)
  have "STALLED_ACTION cfg \<noteq> ''REMOVE''"
    using assms(1) by simp
  with f show ?thesis
    using delete_api_pair [of w "action_url base_url api_version download_id" hs blocklist_params s]
    by (simp add: perform_action_not_deleted)
qed

theorem not_found_suppresses_search_witness:
  "perform_action example_config (fixed_world (one_movie 404) 905000000)
     ''http://radarr'' radarr_headers ''42'' (JInt 7) ''Radarr0'' ''v3'' None JNull
     \<lparr>db = Some [], sent = [], ticks = 0\<rparr>
   = \<lparr>db = Some [],
      sent = [DELETE ''http://radarr/api/v3/queue/42'' radarr_headers blocklist_params],
      ticks = 0\<rparr>"
  using not_found_suppresses_search [of example_config "fixed_world (one_movie 404) 905000000"
     "\<lparr>db = Some [], sent = [], ticks = 0\<rparr>" "''http://radarr''" "''v3''" "''42''" radarr_headers NotPage
     "JInt 7" "''Radarr0''" None JNull]
  by (simp add: action_url_def example_config_def fixed_world_def)

text \<open>
  The claim as stated fails: the same remediation of a movie sends the
  \<^verbatim>\<open>MoviesSearch\<close> command after a 200 and nothing after a 404.
\<close>

theorem not_found_is_not_success_counterexample:
  "sent (perform_action example_config (fixed_world (one_movie 404) 905000000)
     ''http://radarr'' radarr_headers ''42'' (JInt 7) ''Radarr0'' ''v3'' None JNull
     \<lparr>db = Some [], sent = [], ticks = 0\<rparr>)
   = [DELETE ''http://radarr/api/v3/queue/42'' radarr_headers blocklist_params]
  \<and> sent (perform_action example_config (fixed_world (one_movie 200) 905000000)
     ''http://radarr'' radarr_headers ''42'' (JInt 7) ''Radarr0'' ''v3'' None JNull
     \<lparr>db = Some [], sent = [], ticks = 0\<rparr>)
   = [DELETE ''http://radarr/api/v3/queue/42'' radarr_headers blocklist_params,
      POST ''http://radarr/api/v3/command'' radarr_headers (MoviesSearch [JInt 7])]"
  by (simp add: perform_action_def delete_api_def send_def post_api_def raises_for_status_def
        action_url_def command_url_def example_config_def fixed_world_def)

subsection \<open>Which search a series backend gets\<close>

lemma extract_episode_ids_eq:
  "extract_episode_ids item =
     (if truthy (dict_get item ''episodeId'') then Some (Wrapped (dict_get item ''episodeId''))
      else if truthy (dict_get item ''episodeIds'') then Some (Provided (dict_get item ''episodeIds''))
      else None)"
  by (simp add: extract_episode_ids_def dict_get_def split: option.splits)

text \<open>
  Claim C9. Under \<^verbatim>\<open>BLOCKLIST_AND_SEARCH\<close>, for a service whose name starts with
  \<^verbatim>\<open>Sonarr\<close>, after a delete that succeeded (a status that is neither 404 nor 4xx/5xx),
  the requests sent are the delete and then: one \<^verbatim>\<open>EpisodeSearch\<close> with the
  one-element list of \<^verbatim>\<open>episodeId\<close> when that is present, else one
  \<^verbatim>\<open>EpisodeSearch\<close> with \<^verbatim>\<open>episodeIds\<close> as provided when that is non-empty
  (in both cases no \<^verbatim>\<open>SeriesSearch\<close>), else one \<^verbatim>\<open>SeriesSearch\<close> for
  \<^verbatim>\<open>seriesId\<close> when that is present, else nothing. Present is Python's truth test:
  a missing key, null, 0 and an empty list count as absent.
\<close>

theorem sonarr_search_selection:
  assumes "STALLED_ACTION cfg = ''BLOCKLIST_AND_SEARCH''"
    and "prefix ''Sonarr'' service_name"
    and "respond w (sent s) (DELETE (action_url base_url api_version download_id) hs blocklist_params) = Http st d"
    and "st \<noteq> 404" and "\<not> raises_for_status st"
  shows "sent (perform_action cfg w base_url hs download_id movie_id service_name api_version
                 (extract_episode_ids item) (dict_get item ''seriesId'') s)
         = sent s @ DELETE (action_url base_url api_version download_id) hs blocklist_params #
             (if truthy (dict_get item ''episodeId'') then
                [POST (command_url base_url api_version) hs (EpisodeSearch (Wrapped (dict_get item ''episodeId'')))]
              else if truthy (dict_get item ''episodeIds'') then
                [POST (command_url base_url api_version) hs (EpisodeSearch (Provided (dict_get item ''episodeIds'')))]
              else if truthy (dict_get item ''seriesId'') then
                [POST (command_url base_url api_version) hs (SeriesSearch (dict_get item ''seriesId''))]
              else [])"
proof -
  have ok: "fst (delete_api w (action_url base_url api_version download_id) hs blocklist_params s) = True"
    using assms(3-5) by (rule delete_api_ok)
  show ?thesis
    by (simp add: perform_action_deleted [OF ok assms(1)] assms(2) extract_episode_ids_eq)
qed

theorem sonarr_search_selection_witness:
  "sent (perform_action example_config (fixed_world (one_movie 200) 905000000)
           ''http://sonarr'' [(''X-Api-Key'', ''k2'')] ''43'' JNull ''Sonarr0'' ''v3''
           (extract_episode_ids episode_item) (dict_get episode_item ''seriesId'')
           \<lparr>db = Some [], sent = [], ticks = 0\<rparr>)
   = [DELETE ''http://sonarr/api/v3/queue/43'' [(''X-Api-Key'', ''k2'')] blocklist_params,
      POST ''http://sonarr/api/v3/command'' [(''X-Api-Key'', ''k2'')]
        (EpisodeSearch (Provided (JInts [10, 11])))]"
  using sonarr_search_selection [of example_config "''Sonarr0''" "fixed_world (one_movie 200) 905000000"
     "\<lparr>db = Some [], sent = [], ticks = 0\<rparr>" "''http://sonarr''" "''v3''" "''43''"
     "[(''X-Api-Key'', ''k2'')]" 200 NotPage JNull episode_item]
  by (simp add: action_url_def command_url_def example_config_def fixed_world_def
        raises_for_status_def episode_item_def dict_get_def)

subsection \<open>The debounce boundary\<close>


text \<open>What the loop body does with a classified record whose id is in the dict read from the table.\<close>

lemma check_item_known:
  assumes "error_msg_of item = Inr msg" and "is_target metadata_check msg item"
    and "item ''id'' = Some v" and "db_stalled (py_str v) = Some first_detected"
  shows "check_item cfg w base_url hs service_name api_version metadata_check db_stalled item s =
     (if total_seconds (now_at w (ticks s) - first_detected) > of_int (STALLED_TIMEOUT cfg) then
        (let s2 = perform_action cfg w base_url hs (py_str v) (dict_get item ''movieId'')
                    service_name api_version (extract_episode_ids item) (dict_get item ''seriesId'')
                    (s\<lparr>ticks := ticks s + 1\<rparr>)
         in case remove_stalled_download_from_db (py_str v) service_name (db s2) of
              Inl e \<Rightarrow> (Some e, s2)
            | Inr d \<Rightarrow> (None, s2\<lparr>db := d\<rparr>))
      else (None, s\<lparr>ticks := ticks s + 1\<rparr>))"
  using assms by (simp add: check_item_def Let_def)



lemma movie_item_classified:
  "error_msg_of movie_item = Inr ''the download is stalled with no connections''"
  "is_target False ''the download is stalled with no connections'' movie_item"
  "str_int 42 = ''42''"
  by code_simp+


subsection \<open>The classification\<close>



subsection \<open>A delete that fails\<close>

text \<open>
  Claim C1, as amended. Under \<^verbatim>\<open>BLOCKLIST_AND_SEARCH\<close>, when the remediation of a
  record is due and its delete fails with something other than a 404 (no response, or a
  4xx/5xx status), the delete request is the only request sent for the record (no search
  command), and the loop body goes on to delete the tracking row of the record: no row of
  that \<open>(download_id, arr_service)\<close> is left in the table.
\<close>

theorem failed_delete_suppresses_search_and_forgets:
  assumes "STALLED_ACTION cfg = ''BLOCKLIST_AND_SEARCH''"
    and "error_msg_of item = Inr msg" and "is_target metadata_check msg item"
    and "item ''id'' = Some v" and "db_stalled (py_str v) = Some first_detected"
    and "total_seconds (now_at w (ticks s) - first_detected) > of_int (STALLED_TIMEOUT cfg)"
    and "db s = Some t"
    and "respond w (sent s) (DELETE (action_url base_url api_version (py_str v)) hs blocklist_params) = NoResponse
         \<or> (\<exists>st d. respond w (sent s) (DELETE (action_url base_url api_version (py_str v)) hs blocklist_params)
                      = Http st d \<and> st \<noteq> 404 \<and> raises_for_status st)"
  shows "\<exists>t'. check_item cfg w base_url hs service_name api_version metadata_check db_stalled item s
           = (None, s\<lparr>ticks := ticks s + 1,
                       sent := sent s @ [DELETE (action_url base_url api_version (py_str v)) hs blocklist_params],
                       db := Some t'\<rparr>)
         \<and> t' = filter (\<lambda>r. row_key r \<noteq> (py_str v, service_name)) t
         \<and> (\<forall>f. (py_str v, f, service_name) \<notin> set t')"
proof -
  let ?s1 = "s\<lparr>ticks := ticks s + 1\<rparr>"
  let ?del = "DELETE (action_url base_url api_version (py_str v)) hs blocklist_params"
  have "fst (delete_api w (action_url base_url api_version (py_str v)) hs blocklist_params ?s1) = False"
    using assms(8) by (intro delete_api_failed) auto
  moreover have "STALLED_ACTION cfg \<noteq> ''REMOVE''"
    using assms(1) by simp
  ultimately have act: "perform_action cfg w base_url hs (py_str v) (dict_get item ''movieId'')
                    service_name api_version (extract_episode_ids item) (dict_get item ''seriesId'') ?s1
        = ?s1\<lparr>sent := sent ?s1 @ [?del]\<rparr>"
    by (rule perform_action_not_deleted)
  have gone: "\<forall>f. (py_str v, f, service_name) \<notin> set (filter (\<lambda>r. row_key r \<noteq> (py_str v, service_name)) t)"
    by (simp add: row_key_def)
  have "check_item cfg w base_url hs service_name api_version metadata_check db_stalled item s
           = (None, s\<lparr>ticks := ticks s + 1, sent := sent s @ [?del],
                       db := Some (filter (\<lambda>r. row_key r \<noteq> (py_str v, service_name)) t)\<rparr>)"
    using act
    by (simp add: check_item_known [where db_stalled = db_stalled and v = v, OF assms(2-5)] assms(6,7)
          remove_stalled_download_from_db_def)
  with gone show ?thesis by blast
qed

theorem failed_delete_suppresses_search_and_forgets_witness:
  "check_item example_config (fixed_world (one_movie 500) 905000000) ''http://radarr'' radarr_headers
      ''Radarr0'' ''v3'' False [''42'' \<mapsto> 0] movie_item \<lparr>db = Some [(''42'', 0, ''Radarr0'')], sent = [], ticks = 0\<rparr>
     = (None, \<lparr>db = Some [],
               sent = [DELETE ''http://radarr/api/v3/queue/42'' radarr_headers blocklist_params],
               ticks = 1\<rparr>)"
proof -
  have id: "movie_item ''id'' = Some (JInt 42)"
    by (simp add: movie_item_def)
  have known: "[''42'' \<mapsto> 0::int] (py_str (JInt 42)) = Some 0"
    by (simp add: movie_item_classified(3))
  show ?thesis
    using failed_delete_suppresses_search_and_forgets [where db_stalled = "[''42'' \<mapsto> 0]" and v = "JInt 42"
      and cfg = example_config and base_url = "''http://radarr''" and api_version = "''v3''"
      and hs = radarr_headers and service_name = "''Radarr0''" and w = "fixed_world (one_movie 500) 905000000"
      and s = "\<lparr>db = Some [(''42'', 0, ''Radarr0'')], sent = [], ticks = 0\<rparr>"
      and t = "[(''42'', 0, ''Radarr0'')]" and first_detected = 0,
      OF _ movie_item_classified(1,2) id known]
    by (simp add: example_config_def fixed_world_def action_url_def movie_item_classified(3)
          total_seconds_def raises_for_status_def row_key_def)
qed

text \<open>
  The claim as stated fails on the second half. A whole cycle on a backend whose queue holds
  the stalled movie 42, tracked since instant 0, read at 905 seconds, with the delete
  answered by a 500: one page is fetched, the delete is sent, no search follows, and the
  table is empty afterwards.
\<close>

theorem record_not_retained_counterexample:
  "check_queue_and_act 1 example_config (fixed_world (one_movie 500) 905000000)
      ''http://radarr'' ''k1'' ''Radarr0'' ''v3'' False
      \<lparr>db = Some [(''42'', 0, ''Radarr0'')], sent = [], ticks = 0\<rparr>
   = Some (None,
       \<lparr>db = Some [],
        sent = [GET ''http://radarr/api/v3/queue'' radarr_headers
                  [(''protocol'', JStr ''torrent''), (''status'', JStr ''warning''),
                   (''includeEpisode'', JStr ''false''), (''page'', JInt 1), (''pageSize'', JInt 50)],
                DELETE ''http://radarr/api/v3/queue/42'' radarr_headers blocklist_params],
        ticks = 1\<rparr>)"
  by code_simp

subsection \<open>The check mode is not part of the key\<close>

lemma row_key_triple: "row_key (download_id, first_detected, arr_service) = (download_id, arr_service)"
  by (simp add: row_key_def)

lemma check_records_single:
  assumes "get_stalled_downloads_from_db service_name (db s) = Inr db_stalled"
  shows "check_records cfg w base_url hs service_name api_version mode [item] s
         = check_item cfg w base_url hs service_name api_version mode db_stalled item s"
  by (simp add: check_records_def assms split: prod.splits option.splits)

lemma check_item_new:
  assumes "error_msg_of item = Inr msg" and "is_target mode msg item"
    and "item ''id'' = Some v" and "db_stalled (py_str v) = None"
  shows "check_item cfg w base_url hs service_name api_version mode db_stalled item s =
     (case add_stalled_download_to_db (py_str v) (now_at w (ticks s)) service_name (db s) of
        Inl e \<Rightarrow> (Some e, s\<lparr>ticks := ticks s + 1\<rparr>)
      | Inr (added, d) \<Rightarrow> (None, s\<lparr>ticks := ticks s + 1, db := d\<rparr>))"
  using assms by (simp add: check_item_def Let_def split: sum.splits)

lemma snapshot_exists:
  "\<exists>m. get_stalled_downloads_from_db service_name (Some t) = Inr m"
  by (simp add: get_stalled_downloads_from_db_def)

lemma snapshot_absent:
  assumes "unique_keys t" and "get_stalled_downloads_from_db service_name (Some t) = Inr m"
    and "(download_id, service_name) \<notin> row_key ` set t"
  shows "m download_id = None"
proof (cases "m download_id")
  case None
  then show ?thesis .
next
  case (Some f)
  then have "(download_id, f, service_name) \<in> set t"
    using snapshot_lookup [OF assms(1,2)] by simp
  then have "row_key (download_id, f, service_name) \<in> row_key ` set t"
    by (rule imageI)
  with assms(3) show ?thesis
    by (simp add: row_key_def)
qed

text \<open>
  Claim C10. Take a table with one row per key, and a record that is a target in some mode
  and whose id has no row for the service. A cycle over that record in that mode adds the
  row with the instant of detection. In a later cycle on the same table, in any mode (the
  other one included), a target record with the same id finds that row: while the time
  elapsed since the first detection is within the timeout, nothing is sent and the table is
  unchanged, so the original \<open>first_detected\<close> stays; once it is over the timeout the
  remediation fires and the row is removed. At no point are there two rows of that key.
\<close>

theorem mode_is_not_part_of_key:
  assumes "db s = Some t" and "unique_keys t"
    and "error_msg_of item1 = Inr e1" and "is_target mode1 e1 item1" and "item1 ''id'' = Some v1"
    and "(py_str v1, service_name) \<notin> row_key ` set t"
    and "error_msg_of item2 = Inr e2" and "is_target mode2 e2 item2" and "item2 ''id'' = Some v2"
    and "py_str v2 = py_str v1"
    and "check_records cfg w base_url hs service_name api_version mode1 [item1] s = (x1, s1)"
    and "db s2 = db s1"
    and "check_records cfg w base_url hs service_name api_version mode2 [item2] s2 = (x2, s3)"
  shows "x1 = None
       \<and> db s1 = Some (t @ [(py_str v1, now_at w (ticks s), service_name)])
       \<and> x2 = None
       \<and> (\<not> total_seconds (now_at w (ticks s2) - now_at w (ticks s)) > of_int (STALLED_TIMEOUT cfg)
            \<longrightarrow> db s3 = db s1 \<and> sent s3 = sent s2)
       \<and> (total_seconds (now_at w (ticks s2) - now_at w (ticks s)) > of_int (STALLED_TIMEOUT cfg)
            \<longrightarrow> db s3 = Some t
              \<and> (\<exists>rest. sent s3 = sent s2 @
                    DELETE (action_url base_url api_version (py_str v1)) hs blocklist_params # rest))
       \<and> (\<exists>t3. db s3 = Some t3 \<and> unique_keys t3
              \<and> length (filter (\<lambda>r. row_key r = (py_str v1, service_name)) t3) \<le> 1)"
proof -
  let ?d = "py_str v1"
  let ?now1 = "now_at w (ticks s)"
  let ?t1 = "t @ [(?d, ?now1, service_name)]"
  let ?late = "total_seconds (now_at w (ticks s2) - ?now1) > of_int (STALLED_TIMEOUT cfg)"
  obtain m1 where m1: "get_stalled_downloads_from_db service_name (db s) = Inr m1"
    using snapshot_exists assms(1) by metis
  have absent: "m1 ?d = None"
    using snapshot_absent [OF assms(2) _ assms(6)] m1 assms(1) by simp
  have add: "add_stalled_download_to_db ?d ?now1 service_name (db s) = Inr (True, Some ?t1)"
    using assms(6) by (simp add: add_stalled_download_to_db_def assms(1))
  have first: "(x1, s1) = (None, s\<lparr>ticks := ticks s + 1, db := Some ?t1\<rparr>)"
    using assms(11) check_records_single [OF m1]
      check_item_new [where db_stalled = m1 and v = v1, OF assms(3-5) absent]
    by (simp add: add)
  then have x1: "x1 = None" and db1: "db s1 = Some ?t1"
    by simp_all
  have u1: "unique_keys ?t1"
    using assms(2,6) by (simp add: unique_keys_def row_key_def)
  obtain m2 where m2: "get_stalled_downloads_from_db service_name (db s2) = Inr m2"
    using snapshot_exists assms(12) db1 by metis
  have found: "m2 (py_str v2) = Some ?now1"
    using snapshot_lookup [OF u1, of service_name m2 ?d ?now1] m2 assms(10,12) db1 by simp
  have second: "(x2, s3) = check_item cfg w base_url hs service_name api_version mode2 m2 item2 s2"
    using assms(13) check_records_single [OF m2] by simp
  have known: "check_item cfg w base_url hs service_name api_version mode2 m2 item2 s2 =
     (if ?late then
        (let s' = perform_action cfg w base_url hs (py_str v2) (dict_get item2 ''movieId'')
                    service_name api_version (extract_episode_ids item2) (dict_get item2 ''seriesId'')
                    (s2\<lparr>ticks := ticks s2 + 1\<rparr>)
         in case remove_stalled_download_from_db (py_str v2) service_name (db s') of
              Inl e \<Rightarrow> (Some e, s')
            | Inr d \<Rightarrow> (None, s'\<lparr>db := d\<rparr>))
      else (None, s2\<lparr>ticks := ticks s2 + 1\<rparr>))"
    by (rule check_item_known [where db_stalled = m2 and v = v2, OF assms(7-9) found])
  have rm: "filter (\<lambda>r. row_key r \<noteq> (?d, service_name)) ?t1 = t"
  proof -
    have "\<forall>r\<in>set t. row_key r \<noteq> (?d, service_name)"
      using assms(6) by (metis imageI)
    then have "filter (\<lambda>r. row_key r \<noteq> (?d, service_name)) t = t"
      by (simp add: filter_id_conv)
    then show ?thesis
      by (simp add: row_key_def)
  qed
  have rm0: "filter (\<lambda>r. row_key r \<noteq> (?d, service_name)) t = t"
    using rm by (simp add: row_key_def)
  have quiet: "x2 = None \<and> db s3 = db s1 \<and> sent s3 = sent s2" if "\<not> ?late"
    using second known that assms(12) by simp
  have fires: "x2 = None \<and> db s3 = Some t
      \<and> (\<exists>rest. sent s3 = sent s2 @ DELETE (action_url base_url api_version ?d) hs blocklist_params # rest)"
    if ?late
  proof -
    let ?s' = "perform_action cfg w base_url hs (py_str v2) (dict_get item2 ''movieId'')
                    service_name api_version (extract_episode_ids item2) (dict_get item2 ''seriesId'')
                    (s2\<lparr>ticks := ticks s2 + 1\<rparr>)"
    have r: "(x2, s3) = (None, ?s'\<lparr>db := Some t\<rparr>)"
      using second known that
      by (simp add: Let_def perform_action_db assms(12) db1 remove_stalled_download_from_db_def
            assms(10) rm0 row_key_triple)
    obtain rest where "sent ?s' = sent s2 @ DELETE (action_url base_url api_version (py_str v2)) hs blocklist_params # rest"
      using perform_action_sent [of cfg w base_url hs "py_str v2" "dict_get item2 ''movieId''" service_name
        api_version "extract_episode_ids item2" "dict_get item2 ''seriesId''" "s2\<lparr>ticks := ticks s2 + 1\<rparr>"]
      by auto
    with r show ?thesis
      by (auto simp: assms(10))
  qed
  have one1: "length (filter (\<lambda>r. row_key r = (?d, service_name)) ?t1) \<le> 1"
    using one_row_of_key [OF u1, of "(?d, ?now1, service_name)"] by (simp add: row_key_def)
  have one0: "length (filter (\<lambda>r. row_key r = (?d, service_name)) t) \<le> 1"
    using one1 by simp
  have last: "\<exists>t3. db s3 = Some t3 \<and> unique_keys t3
              \<and> length (filter (\<lambda>r. row_key r = (?d, service_name)) t3) \<le> 1"
  proof (cases ?late)
    case True
    with fires assms(2) one0 show ?thesis by blast
  next
    case False
    with quiet db1 u1 one1 show ?thesis by simp
  qed
  from x1 db1 quiet fires last show ?thesis
    by blast
qed

lemma metadata_item_classified:
  "error_msg_of metadata_item = Inr ''qbittorrent is downloading metadata''"
  "is_target True ''qbittorrent is downloading metadata'' metadata_item"
  by code_simp+

theorem mode_is_not_part_of_key_witness:
  "check_records example_config (ticking_world (one_movie 200) 600000000) ''http://radarr'' radarr_headers
      ''Radarr0'' ''v3'' False [movie_item] \<lparr>db = Some [], sent = [], ticks = 0\<rparr>
     = (None, \<lparr>db = Some [(''42'', 0, ''Radarr0'')], sent = [], ticks = 1\<rparr>)
   \<and> check_records example_config (ticking_world (one_movie 200) 600000000) ''http://radarr'' radarr_headers
      ''Radarr0'' ''v3'' True [metadata_item] \<lparr>db = Some [(''42'', 0, ''Radarr0'')], sent = [], ticks = 1\<rparr>
     = (None, \<lparr>db = Some [(''42'', 0, ''Radarr0'')], sent = [], ticks = 2\<rparr>)
   \<and> db \<lparr>db = Some [(''42'', 0, ''Radarr0'')], sent = [], ticks = 2\<rparr>
     = Some ([] @ [(py_str (JInt 42), now_at (ticking_world (one_movie 200) 600000000) 0, ''Radarr0'')])"
proof -
  let ?w = "ticking_world (one_movie 200) 600000000"
  let ?s0 = "\<lparr>db = Some [], sent = [], ticks = 0\<rparr>"
  let ?s1 = "\<lparr>db = Some [(''42'', 0, ''Radarr0'')], sent = [], ticks = 1\<rparr>"
  let ?s3 = "\<lparr>db = Some [(''42'', 0, ''Radarr0'')], sent = [], ticks = 2\<rparr>"
  have c1: "check_records example_config ?w ''http://radarr'' radarr_headers
      ''Radarr0'' ''v3'' False [movie_item] ?s0 = (None, ?s1)"
    by code_simp
  have c2: "check_records example_config ?w ''http://radarr'' radarr_headers
      ''Radarr0'' ''v3'' True [metadata_item] ?s1 = (None, ?s3)"
    by code_simp
  have id1: "movie_item ''id'' = Some (JInt 42)"
    by (simp add: movie_item_def)
  have id2: "metadata_item ''id'' = Some (JInt 42)"
    by (simp add: metadata_item_def)
  have "db ?s0 = Some []" and "unique_keys []"
    and "(py_str (JInt 42), ''Radarr0'') \<notin> row_key ` set []"
    by (simp_all add: unique_keys_def)
  from mode_is_not_part_of_key [OF this(1,2) movie_item_classified(1,2) id1 this(3)
      metadata_item_classified id2 refl c1 refl c2]
  have "db ?s1 = Some ([] @ [(py_str (JInt 42), now_at ?w (ticks ?s0), ''Radarr0'')])"
    by blast
  with c1 c2 show ?thesis
    by simp
qed

subsection \<open>The queue fetcher\<close>








subsection \<open>A timeout of zero\<close>

lemma initialize_database_skipped:
  "STALLED_TIMEOUT cfg = 0 \<Longrightarrow> initialize_database cfg d = d"
  by (simp add: initialize_database_def)

lemma check_records_without_table:
  "db s = None \<Longrightarrow> records \<noteq> [] \<Longrightarrow>
   check_records cfg w base_url hs service_name api_version mode records s = (Some OperationalError, s)"
  by (cases records) (simp_all add: check_records_def get_stalled_downloads_from_db_def)

text \<open>
  Claim C4 does not hold of the code. With \<^verbatim>\<open>STALLED_TIMEOUT = 0\<close> the
  initialization leaves a database without the table as it is, and the first cycle that
  fetches a record reads the table and raises \<^verbatim>\<open>OperationalError\<close> after the fetch;
  the sweep ends there, before the Sonarr target is polled.
\<close>

theorem timeout_zero_needs_table:
  "initialize_database (example_config\<lparr>STALLED_TIMEOUT := 0\<rparr>) None = None
   \<and> check_queue_and_act 1 (example_config\<lparr>STALLED_TIMEOUT := 0\<rparr>) (fixed_world (one_movie 200) 0)
        ''http://radarr'' ''k1'' ''Radarr0'' ''v3'' False
        \<lparr>db = initialize_database (example_config\<lparr>STALLED_TIMEOUT := 0\<rparr>) None, sent = [], ticks = 0\<rparr>
      = Some (Some OperationalError,
          \<lparr>db = None,
           sent = [GET ''http://radarr/api/v3/queue'' radarr_headers
                     (queue_params @ [(''page'', JInt 1), (''pageSize'', JInt 50)])],
           ticks = 0\<rparr>)
   \<and> sweep 1 (example_config\<lparr>STALLED_TIMEOUT := 0\<rparr>) (fixed_world (one_movie 200) 0)
        \<lparr>db = initialize_database (example_config\<lparr>STALLED_TIMEOUT := 0\<rparr>) None, sent = [], ticks = 0\<rparr>
      = Some (Some OperationalError,
          \<lparr>db = None,
           sent = [GET ''http://radarr/api/v3/queue'' radarr_headers
                     (queue_params @ [(''page'', JInt 1), (''pageSize'', JInt 50)])],
           ticks = 0\<rparr>)"
  by code_simp

subsection \<open>What a failure stops\<close>











end
